theory Spec2Isabelle
  imports Main "HOL-Library.Word"
begin

unbundle bit_operations_syntax

section \<open>Go values used by base/types.go\<close>

text \<open>
  A Go \<^verbatim>\<open>[]byte\<close> is either the nil slice or a sequence of octets; a Go
  \<^verbatim>\<open>string\<close> is a sequence of octets. \<^verbatim>\<open>len\<close> of the nil slice is 0 and
  \<^verbatim>\<open>string(b)\<close> of the nil slice is the empty string.
\<close>

type_synonym octet = "8 word"
type_synonym uint32 = "32 word"
type_synonym uint64 = "64 word"
type_synonym byte_slice = "octet list option"
type_synonym go_string = "octet list"

definition elems :: "byte_slice \<Rightarrow> octet list" where
  "elems b = (case b of None \<Rightarrow> [] | Some xs \<Rightarrow> xs)"

definition len :: "byte_slice \<Rightarrow> nat" where
  "len b = length (elems b)"

text \<open>
  The argument of every \<^verbatim>\<open>Put\<close> is a \<^verbatim>\<open>Data\<close>, an interface value whose
  dynamic type is open. \<^verbatim>\<open>d.([]byte)\<close> yields the slice when the dynamic type
  is \<^verbatim>\<open>[]byte\<close> and panics otherwise.
\<close>

datatype Data = Bytes_Data byte_slice | Other_Data

datatype panic = TypeAssertion

definition assert_bytes :: "Data \<Rightarrow> panic + byte_slice" where
  "assert_bytes d = (case d of Bytes_Data b \<Rightarrow> Inr b | Other_Data \<Rightarrow> Inl TypeAssertion)"

text \<open>
  \<^verbatim>\<open>make([]byte, n)\<close> is n zero octets; \<^verbatim>\<open>copy(dst, src)\<close> overwrites the first
  \<^verbatim>\<open>min(len(dst), len(src))\<close> elements of dst.
\<close>

definition make_bytes :: "nat \<Rightarrow> octet list" where
  "make_bytes n = replicate n 0"

definition copy_bytes :: "octet list \<Rightarrow> octet list \<Rightarrow> octet list" where
  "copy_bytes dst src = take (length dst) src @ drop (length src) dst"

section \<open>pad4\<close>

text \<open>
  Modelled from the spec: the function \<^verbatim>\<open>pad4\<close> is called by OctetString.Put and
  OctetString.updatePadding but is declared in a file of the repository that is not
  among the sources. The spec gives it as
  \<^verbatim>\<open>pad_to_4(n) = ((n + 3) / 4) * 4\<close> with integer division, for all n \<ge> 0.
\<close>

definition pad_to_4 :: "nat \<Rightarrow> nat" where
  "pad_to_4 n = ((n + 3) div 4) * 4"

text \<open>
  Modelled from the spec: the call sites \<^verbatim>\<open>os.Padding = pad4(l) - l\<close> with
  \<^verbatim>\<open>l := uint32(len(b))\<close> fix the Go signature of \<^verbatim>\<open>pad4\<close> as uint32 to uint32; the
  body is the spec's formula in uint32 arithmetic.
\<close>

definition pad4 :: "uint32 \<Rightarrow> uint32" where
  "pad4 n = ((n + 3) div 4) * 4"

section \<open>OctetString\<close>

record OctetString =
  os_Value :: go_string
  os_Padding :: uint32

definition OctetString_Put :: "Data \<Rightarrow> OctetString \<Rightarrow> panic + OctetString" where
  "OctetString_Put d os =
     (case assert_bytes d of
        Inl p \<Rightarrow> Inl p
      | Inr b \<Rightarrow>
          (let l = (word_of_nat (len b) :: uint32);
               os1 = os\<lparr>os_Padding := pad4 l - l\<rparr>
           in Inr (os1\<lparr>os_Value := elems b\<rparr>)))"

definition updatePadding :: "OctetString \<Rightarrow> OctetString" where
  "updatePadding os =
     (if os_Padding os = 0
      then (let l = (word_of_nat (length (os_Value os)) :: uint32)
            in os\<lparr>os_Padding := pad4 l - l\<rparr>)
      else os)"

text \<open>Bytes returns the octets and the receiver as updatePadding left it.\<close>

definition OctetString_Bytes :: "OctetString \<Rightarrow> octet list \<times> OctetString" where
  "OctetString_Bytes os =
     (let os1 = updatePadding os;
          l = (word_of_nat (length (os_Value os1)) :: uint32);
          b = make_bytes (unat (l + os_Padding os1))
      in (copy_bytes b (os_Value os1), os1))"

definition OctetString_Length :: "OctetString \<Rightarrow> uint32" where
  "OctetString_Length os = word_of_nat (length (os_Value os)) - os_Padding os"

text \<open>
  UTF8String, DiameterIdentity and IPFilterRule are structs whose only member is an
  embedded OctetString; they declare String() alone, so their Put, Bytes and Length are
  the promoted methods of OctetString, acting on the embedded value.
\<close>

type_synonym UTF8String = OctetString
type_synonym DiameterIdentity = OctetString
type_synonym IPFilterRule = OctetString

text \<open>The zero value, as \<^verbatim>\<open>new(OctetString)\<close> gives it.\<close>

definition OctetString_zero :: OctetString where
  "OctetString_zero = \<lparr>os_Value = [], os_Padding = 0\<rparr>"

section \<open>encoding/binary, big endian\<close>

text \<open>
  \<^verbatim>\<open>binary.BigEndian.Uint32(b)\<close> and \<^verbatim>\<open>PutUint32\<close>, and their 64-bit siblings, of
  the Go standard library.
\<close>

definition BigEndian_Uint32 :: "octet list \<Rightarrow> uint32" where
  "BigEndian_Uint32 b =
     ucast (b ! 3) OR push_bit 8 (ucast (b ! 2)) OR push_bit 16 (ucast (b ! 1))
       OR push_bit 24 (ucast (b ! 0))"

definition BigEndian_PutUint32 :: "uint32 \<Rightarrow> octet list" where
  "BigEndian_PutUint32 v =
     [ucast (drop_bit 24 v), ucast (drop_bit 16 v), ucast (drop_bit 8 v), ucast v]"

definition BigEndian_Uint64 :: "octet list \<Rightarrow> uint64" where
  "BigEndian_Uint64 b =
     ucast (b ! 7) OR push_bit 8 (ucast (b ! 6)) OR push_bit 16 (ucast (b ! 5))
       OR push_bit 24 (ucast (b ! 4)) OR push_bit 32 (ucast (b ! 3))
       OR push_bit 40 (ucast (b ! 2)) OR push_bit 48 (ucast (b ! 1))
       OR push_bit 56 (ucast (b ! 0))"

definition BigEndian_PutUint64 :: "uint64 \<Rightarrow> octet list" where
  "BigEndian_PutUint64 v =
     [ucast (drop_bit 56 v), ucast (drop_bit 48 v), ucast (drop_bit 40 v),
      ucast (drop_bit 32 v), ucast (drop_bit 24 v), ucast (drop_bit 16 v),
      ucast (drop_bit 8 v), ucast v]"

text \<open>
  \<^verbatim>\<open>binary.Read(bytes.NewBuffer(buf), binary.BigEndian, &v)\<close> for a 4-octet (8-octet)
  v reads exactly that many octets from the front of buf; with fewer octets it returns
  an error and leaves v as it was. The callers drop the error, so the model returns
  the decoded bits or None.
\<close>

definition binary_Read32 :: "octet list \<Rightarrow> uint32 option" where
  "binary_Read32 buf =
     (if length buf < 4 then None else Some (BigEndian_Uint32 (take 4 buf)))"

definition binary_Read64 :: "octet list \<Rightarrow> uint64 option" where
  "binary_Read64 buf =
     (if length buf < 8 then None else Some (BigEndian_Uint64 (take 8 buf)))"

text \<open>
  \<^verbatim>\<open>binary.Write(b, binary.BigEndian, v)\<close> into a new buffer followed by
  \<^verbatim>\<open>b.Bytes()\<close>: the 4 (8) octets of v, a non-nil slice.
\<close>

definition binary_Write32 :: "uint32 \<Rightarrow> octet list" where
  "binary_Write32 v = BigEndian_PutUint32 v"

definition binary_Write64 :: "uint64 \<Rightarrow> octet list" where
  "binary_Write64 v = BigEndian_PutUint64 v"

section \<open>Numeric types\<close>

text \<open>
  The Value of each numeric type is carried as the bits binary.Write emits for it:
  two's complement for int32 and int64 (\<^term>\<open>sint\<close> reads the number), the plain
  binary number for uint32 and uint64 (\<^term>\<open>unat\<close>), and the IEEE 754 bit pattern
  (math.Float32bits, math.Float64bits) for float32 and float64. Buffer is a
  \<^verbatim>\<open>[]byte\<close>, nil in the zero value.
\<close>

record Integer32 =
  i32_Value :: uint32
  i32_Buffer :: byte_slice

definition Integer32_zero :: Integer32 where
  "Integer32_zero = \<lparr>i32_Value = 0, i32_Buffer = None\<rparr>"

definition Integer32_Put :: "Data \<Rightarrow> Integer32 \<Rightarrow> panic + Integer32" where
  "Integer32_Put d n =
     (case assert_bytes d of
        Inl p \<Rightarrow> Inl p
      | Inr b \<Rightarrow>
          (let n1 = n\<lparr>i32_Buffer := b\<rparr>
           in Inr (case binary_Read32 (elems (i32_Buffer n1)) of
                     None \<Rightarrow> n1
                   | Some v \<Rightarrow> n1\<lparr>i32_Value := v\<rparr>)))"

definition Integer32_Bytes :: "Integer32 \<Rightarrow> octet list \<times> Integer32" where
  "Integer32_Bytes n =
     (let b = binary_Write32 (i32_Value n);
          n1 = n\<lparr>i32_Buffer := Some b\<rparr>
      in (elems (i32_Buffer n1), n1))"

definition Integer32_Length :: "Integer32 \<Rightarrow> uint32 \<times> Integer32" where
  "Integer32_Length n =
     (let n1 = (if i32_Buffer n = None then snd (Integer32_Bytes n) else n)
      in (word_of_nat (len (i32_Buffer n1)), n1))"

record Integer64 =
  i64_Value :: uint64
  i64_Buffer :: byte_slice

definition Integer64_zero :: Integer64 where
  "Integer64_zero = \<lparr>i64_Value = 0, i64_Buffer = None\<rparr>"

definition Integer64_Put :: "Data \<Rightarrow> Integer64 \<Rightarrow> panic + Integer64" where
  "Integer64_Put d n =
     (case assert_bytes d of
        Inl p \<Rightarrow> Inl p
      | Inr b \<Rightarrow>
          (let n1 = n\<lparr>i64_Buffer := b\<rparr>
           in Inr (case binary_Read64 (elems (i64_Buffer n1)) of
                     None \<Rightarrow> n1
                   | Some v \<Rightarrow> n1\<lparr>i64_Value := v\<rparr>)))"

definition Integer64_Bytes :: "Integer64 \<Rightarrow> octet list \<times> Integer64" where
  "Integer64_Bytes n =
     (let b = binary_Write64 (i64_Value n);
          n1 = n\<lparr>i64_Buffer := Some b\<rparr>
      in (elems (i64_Buffer n1), n1))"

definition Integer64_Length :: "Integer64 \<Rightarrow> uint32 \<times> Integer64" where
  "Integer64_Length n =
     (let n1 = (if i64_Buffer n = None then snd (Integer64_Bytes n) else n)
      in (word_of_nat (len (i64_Buffer n1)), n1))"

record Unsigned32 =
  u32_Value :: uint32
  u32_Buffer :: byte_slice

definition Unsigned32_zero :: Unsigned32 where
  "Unsigned32_zero = \<lparr>u32_Value = 0, u32_Buffer = None\<rparr>"

definition Unsigned32_Put :: "Data \<Rightarrow> Unsigned32 \<Rightarrow> panic + Unsigned32" where
  "Unsigned32_Put d n =
     (case assert_bytes d of
        Inl p \<Rightarrow> Inl p
      | Inr b \<Rightarrow>
          (let n1 = n\<lparr>u32_Buffer := b\<rparr>
           in Inr (case binary_Read32 (elems (u32_Buffer n1)) of
                     None \<Rightarrow> n1
                   | Some v \<Rightarrow> n1\<lparr>u32_Value := v\<rparr>)))"

definition Unsigned32_Bytes :: "Unsigned32 \<Rightarrow> octet list \<times> Unsigned32" where
  "Unsigned32_Bytes n =
     (let b = binary_Write32 (u32_Value n);
          n1 = n\<lparr>u32_Buffer := Some b\<rparr>
      in (elems (u32_Buffer n1), n1))"

definition Unsigned32_Length :: "Unsigned32 \<Rightarrow> uint32 \<times> Unsigned32" where
  "Unsigned32_Length n =
     (let n1 = (if u32_Buffer n = None then snd (Unsigned32_Bytes n) else n)
      in (word_of_nat (len (u32_Buffer n1)), n1))"

record Unsigned64 =
  u64_Value :: uint64
  u64_Buffer :: byte_slice

definition Unsigned64_zero :: Unsigned64 where
  "Unsigned64_zero = \<lparr>u64_Value = 0, u64_Buffer = None\<rparr>"

definition Unsigned64_Put :: "Data \<Rightarrow> Unsigned64 \<Rightarrow> panic + Unsigned64" where
  "Unsigned64_Put d n =
     (case assert_bytes d of
        Inl p \<Rightarrow> Inl p
      | Inr b \<Rightarrow>
          (let n1 = n\<lparr>u64_Buffer := b\<rparr>
           in Inr (case binary_Read64 (elems (u64_Buffer n1)) of
                     None \<Rightarrow> n1
                   | Some v \<Rightarrow> n1\<lparr>u64_Value := v\<rparr>)))"

definition Unsigned64_Bytes :: "Unsigned64 \<Rightarrow> octet list \<times> Unsigned64" where
  "Unsigned64_Bytes n =
     (let b = binary_Write64 (u64_Value n);
          n1 = n\<lparr>u64_Buffer := Some b\<rparr>
      in (elems (u64_Buffer n1), n1))"

definition Unsigned64_Length :: "Unsigned64 \<Rightarrow> uint32 \<times> Unsigned64" where
  "Unsigned64_Length n =
     (let n1 = (if u64_Buffer n = None then snd (Unsigned64_Bytes n) else n)
      in (word_of_nat (len (u64_Buffer n1)), n1))"

record Float32 =
  f32_Value :: uint32
  f32_Buffer :: byte_slice

definition Float32_zero :: Float32 where
  "Float32_zero = \<lparr>f32_Value = 0, f32_Buffer = None\<rparr>"

definition Float32_Put :: "Data \<Rightarrow> Float32 \<Rightarrow> panic + Float32" where
  "Float32_Put d n =
     (case assert_bytes d of
        Inl p \<Rightarrow> Inl p
      | Inr b \<Rightarrow>
          (let n1 = n\<lparr>f32_Buffer := b\<rparr>
           in Inr (case binary_Read32 (elems (f32_Buffer n1)) of
                     None \<Rightarrow> n1
                   | Some v \<Rightarrow> n1\<lparr>f32_Value := v\<rparr>)))"

definition Float32_Bytes :: "Float32 \<Rightarrow> octet list \<times> Float32" where
  "Float32_Bytes n =
     (let b = binary_Write32 (f32_Value n);
          n1 = n\<lparr>f32_Buffer := Some b\<rparr>
      in (elems (f32_Buffer n1), n1))"

definition Float32_Length :: "Float32 \<Rightarrow> uint32 \<times> Float32" where
  "Float32_Length n =
     (let n1 = (if f32_Buffer n = None then snd (Float32_Bytes n) else n)
      in (word_of_nat (len (f32_Buffer n1)), n1))"

record Float64 =
  f64_Value :: uint64
  f64_Buffer :: byte_slice

definition Float64_zero :: Float64 where
  "Float64_zero = \<lparr>f64_Value = 0, f64_Buffer = None\<rparr>"

definition Float64_Put :: "Data \<Rightarrow> Float64 \<Rightarrow> panic + Float64" where
  "Float64_Put d n =
     (case assert_bytes d of
        Inl p \<Rightarrow> Inl p
      | Inr b \<Rightarrow>
          (let n1 = n\<lparr>f64_Buffer := b\<rparr>
           in Inr (case binary_Read64 (elems (f64_Buffer n1)) of
                     None \<Rightarrow> n1
                   | Some v \<Rightarrow> n1\<lparr>f64_Value := v\<rparr>)))"

definition Float64_Bytes :: "Float64 \<Rightarrow> octet list \<times> Float64" where
  "Float64_Bytes n =
     (let b = binary_Write64 (f64_Value n);
          n1 = n\<lparr>f64_Buffer := Some b\<rparr>
      in (elems (f64_Buffer n1), n1))"

definition Float64_Length :: "Float64 \<Rightarrow> uint32 \<times> Float64" where
  "Float64_Length n =
     (let n1 = (if f64_Buffer n = None then snd (Float64_Bytes n) else n)
      in (word_of_nat (len (f64_Buffer n1)), n1))"

section \<open>Address\<close>

text \<open>
  \<^verbatim>\<open>net.IP\<close> is a \<^verbatim>\<open>[]byte\<close>; \<^verbatim>\<open>net.IPv4(a, b, c, d)\<close> of the Go standard library
  returns the 16-octet form: the IPv4-in-IPv6 prefix followed by the four octets.
\<close>

record Address =
  addr_Family :: byte_slice
  addr_IP :: byte_slice
  addr_Padding :: int

definition v4InV6Prefix :: "octet list" where
  "v4InV6Prefix = [0, 0, 0, 0, 0, 0, 0, 0, 0, 0, 0xff, 0xff]"

definition net_IPv4 :: "octet \<Rightarrow> octet \<Rightarrow> octet \<Rightarrow> octet \<Rightarrow> byte_slice" where
  "net_IPv4 a b c d = Some (v4InV6Prefix @ [a, b, c, d])"

definition Address_zero :: Address where
  "Address_zero = \<lparr>addr_Family = None, addr_IP = None, addr_Padding = 0\<rparr>"

definition Address_Put :: "Data \<Rightarrow> Address \<Rightarrow> panic + Address" where
  "Address_Put d addr =
     (case assert_bytes d of
        Inl p \<Rightarrow> Inl p
      | Inr s \<Rightarrow>
          (let b = elems s
           in if len s \<ge> 6 \<and> b ! 1 = 1
              then Inr (addr\<lparr>addr_Family := Some [b ! 0, b ! 1],
                             addr_IP := net_IPv4 (b ! 2) (b ! 3) (b ! 4) (b ! 5),
                             addr_Padding := 2\<rparr>)
              else Inr addr))"

section \<open>The watchdog handler of package sm\<close>

text \<open>
  handleDWR works on a connection, a request message and errors of the packages diam
  and smparser, whose declarations are not among the sources: they are the type
  parameters \<open>'conn\<close>, \<open>'msg\<close> and \<open>'err\<close>. The named constants it passes
  (diam.Success, avp.OriginHost, avp.OriginRealm, avp.OriginStateID, avp.Mbit) are
  constructors of types that have other members too.
\<close>

datatype result_code = Success | Result_Code nat

datatype avp_code = OriginHost | OriginRealm | OriginStateID | AVP_Code nat

datatype avp_flags = Mbit | AVP_Flags nat

datatype avp_data = DiameterIdentity_data go_string | Unsigned32_data uint32

record AVP =
  avp_Code :: avp_code
  avp_Flags :: avp_flags
  avp_VendorID :: uint32
  avp_Data :: avp_data

text \<open>
  Modelled from the spec: Message.Answer and Message.NewAVP are not among the sources.
  The spec's message abstraction provides "construction of answer messages
  pre-populated with a mirrored session/hop identifier and a settable result code".
  An answer is the request it mirrors, the result code given to Answer, and the AVPs
  added by NewAVP, in the order of the calls.
\<close>

record 'msg Answer =
  ans_Request :: 'msg
  ans_ResultCode :: result_code
  ans_AVPs :: "AVP list"

definition Message_Answer :: "'msg \<Rightarrow> result_code \<Rightarrow> 'msg Answer" where
  "Message_Answer m rc = \<lparr>ans_Request = m, ans_ResultCode = rc, ans_AVPs = []\<rparr>"

definition NewAVP :: "'msg Answer \<Rightarrow> avp_code \<Rightarrow> avp_flags \<Rightarrow> uint32 \<Rightarrow> avp_data \<Rightarrow> 'msg Answer" where
  "NewAVP a code flags vendor data =
     a\<lparr>ans_AVPs := ans_AVPs a @
          [\<lparr>avp_Code = code, avp_Flags = flags, avp_VendorID = vendor, avp_Data = data\<rparr>]\<rparr>"

record Settings =
  cfg_OriginHost :: go_string
  cfg_OriginRealm :: go_string

record StateMachine =
  sm_cfg :: Settings

record ('conn, 'msg, 'err) ErrorReport =
  er_Conn :: 'conn
  er_Message :: 'msg
  er_Error :: 'err

text \<open>
  What the handler does to the outside is the sequence of its calls of
  \<^verbatim>\<open>a.WriteTo(c)\<close> and \<^verbatim>\<open>sm.Error(report)\<close>. It calls nothing else on the
  connection.
\<close>

datatype ('conn, 'msg, 'err) effect =
    WriteTo "'msg Answer" 'conn
  | Error "('conn, 'msg, 'err) ErrorReport"

text \<open>
  What the handler reads from the outside: the result of \<^verbatim>\<open>dwr.Parse(m)\<close> (None is
  the nil error), the clock \<^verbatim>\<open>time.Now().Unix()\<close>, an int64, and the error result of
  \<^verbatim>\<open>a.WriteTo(c)\<close>.
\<close>

record ('conn, 'msg, 'err) world =
  Parse :: "'msg \<Rightarrow> 'err option"
  Now_Unix :: uint64
  WriteTo_err :: "'msg Answer \<Rightarrow> 'conn \<Rightarrow> 'err option"

definition handleDWR ::
  "('conn, 'msg, 'err) world \<Rightarrow> StateMachine \<Rightarrow> 'conn \<Rightarrow> 'msg \<Rightarrow> ('conn, 'msg, 'err) effect list" where
  "handleDWR w sm c m =
     (case Parse w m of
        Some err \<Rightarrow> [Error \<lparr>er_Conn = c, er_Message = m, er_Error = err\<rparr>]
      | None \<Rightarrow>
          (let a0 = Message_Answer m Success;
               a1 = NewAVP a0 OriginHost Mbit 0 (DiameterIdentity_data (cfg_OriginHost (sm_cfg sm)));
               a2 = NewAVP a1 OriginRealm Mbit 0 (DiameterIdentity_data (cfg_OriginRealm (sm_cfg sm)));
               stateid = (ucast (Now_Unix w) :: uint32);
               a = NewAVP a2 OriginStateID Mbit 0 (Unsigned32_data stateid)
           in case WriteTo_err w a c of
                Some err \<Rightarrow> [WriteTo a c, Error \<lparr>er_Conn = c, er_Message = m, er_Error = err\<rparr>]
              | None \<Rightarrow> [WriteTo a c]))"

text \<open>The answers written and the reports raised, out of a sequence of effects.\<close>

fun writes :: "('conn, 'msg, 'err) effect list \<Rightarrow> ('msg Answer \<times> 'conn) list" where
  "writes [] = []"
| "writes (WriteTo a c # es) = (a, c) # writes es"
| "writes (Error r # es) = writes es"

fun reports :: "('conn, 'msg, 'err) effect list \<Rightarrow> ('conn, 'msg, 'err) ErrorReport list" where
  "reports [] = []"
| "reports (WriteTo a c # es) = reports es"
| "reports (Error r # es) = r # reports es"

section \<open>Properties of pad4\<close>

lemma pad_to_4_mod4: "pad_to_4 n mod 4 = 0"
  unfolding pad_to_4_def by presburger

lemma pad_to_4_ge: "n \<le> pad_to_4 n"
  unfolding pad_to_4_def by presburger

lemma pad_to_4_less: "pad_to_4 n < n + 4"
  unfolding pad_to_4_def by presburger

lemma pad_to_4_aligned: "n mod 4 = 0 \<Longrightarrow> pad_to_4 n = n"
  unfolding pad_to_4_def by presburger

lemma pad_to_4_unaligned: "n mod 4 \<noteq> 0 \<Longrightarrow> n < pad_to_4 n"
  unfolding pad_to_4_def by presburger

lemma pad4_alt: "pad4 n = (n + 3) - (n + 3) mod 4"
proof -
  have "(n + 3) div 4 * 4 + (n + 3) mod 4 = n + 3"
    by (rule div_mult_mod_eq)
  then show ?thesis
    unfolding pad4_def by (simp add: algebra_simps)
qed

lemma word_mod4_le3: "(x :: uint32) mod 4 \<le> 3"
proof -
  have "unat (x mod 4) = unat x mod 4"
    by (simp add: unat_mod)
  then have "unat (x mod 4) \<le> 3"
    by simp
  then show ?thesis
    by (simp add: word_le_nat_alt)
qed

lemma unat_pad4_sub: "unat (pad4 n - n) = 3 - unat (n + 3) mod 4"
proof -
  have "unat (3 - (n + 3) mod 4) = unat (3 :: uint32) - unat ((n + 3) mod 4)"
    by (rule unat_sub) (rule word_mod4_le3)
  then show ?thesis
    by (simp add: pad4_alt unat_mod)
qed

lemma unat_pad4: "unat (pad4 n) = unat (n + 3) div 4 * 4"
proof -
  have "unat (n + 3) div 4 * 4 \<le> unat (n + 3)"
    by simp
  also have "\<dots> < 2 ^ 32"
    using unsigned_less [of "n + 3"] by simp
  finally have lt: "unat (n + 3) div 4 * 4 < 2 ^ 32" .
  have "unat (pad4 n) = (unat ((n + 3) div 4) * 4) mod 2 ^ 32"
    unfolding pad4_def by (simp add: unat_word_ariths)
  also have "\<dots> = (unat (n + 3) div 4 * 4) mod 2 ^ 32"
    by (simp add: unat_div)
  also have "\<dots> = unat (n + 3) div 4 * 4"
    using lt by simp
  finally show ?thesis .
qed

lemma unat_of_nat32: "k < 2 ^ 32 \<Longrightarrow> unat (word_of_nat k :: uint32) = k"
  by (simp add: unat_of_nat)

lemma unat_pad4_of_nat:
  assumes "k + 3 < 2 ^ 32"
  shows "unat (pad4 (word_of_nat k)) = pad_to_4 k"
proof -
  have "unat (word_of_nat k + 3 :: uint32) = unat (word_of_nat (k + 3) :: uint32)"
    by simp
  also have "\<dots> = k + 3"
    using assms by (rule unat_of_nat32)
  finally show ?thesis
    by (simp add: unat_pad4 pad_to_4_def)
qed

lemma unat_pad4_sub_of_nat:
  assumes "k + 3 < 2 ^ 32"
  shows "unat (pad4 (word_of_nat k) - word_of_nat k) = pad_to_4 k - k"
proof -
  have "unat (word_of_nat k + 3 :: uint32) = unat (word_of_nat (k + 3) :: uint32)"
    by simp
  also have "\<dots> = k + 3"
    using assms by (rule unat_of_nat32)
  finally have "unat (pad4 (word_of_nat k) - word_of_nat k) = 3 - (k + 3) mod 4"
    by (simp add: unat_pad4_sub)
  also have "\<dots> = pad_to_4 k - k"
    unfolding pad_to_4_def by presburger
  finally show ?thesis .
qed

lemma pad4_add_sub:
  assumes "k + 3 < 2 ^ 32"
  shows "unat (word_of_nat k + (pad4 (word_of_nat k) - word_of_nat k) :: uint32) = pad_to_4 k"
proof -
  have "word_of_nat k + (pad4 (word_of_nat k) - word_of_nat k) = pad4 (word_of_nat k)"
    by simp
  then show ?thesis
    using assms by (simp add: unat_pad4_of_nat)
qed

text \<open>
  C5. For all non-negative integers n, pad4(n) = ((n + 3) / 4) * 4 under integer
  division; pad4(n) - n is one of 0, 1, 2, 3 and pad4(n) is a multiple of 4. The same
  holds of the uint32 function the code calls, where the difference is taken in
  uint32 arithmetic.
\<close>

theorem pad4_exact:
  "pad_to_4 n = ((n + 3) div 4) * 4
   \<and> int (pad_to_4 n) - int n \<in> {0, 1, 2, 3}
   \<and> pad_to_4 n mod 4 = 0
   \<and> pad4 w = ((w + 3) div 4) * 4
   \<and> unat (pad4 w - w) \<in> {0, 1, 2, 3}
   \<and> unat (pad4 w) mod 4 = 0"
proof -
  have a: "int (pad_to_4 n) - int n \<in> {0, 1, 2, 3}"
    using pad_to_4_ge [of n] pad_to_4_less [of n] by auto
  have "unat (pad4 w - w) < 4"
    by (simp add: unat_pad4_sub)
  then have b: "unat (pad4 w - w) \<in> {0, 1, 2, 3}"
    by auto
  have c: "unat (pad4 w) mod 4 = 0"
    by (simp add: unat_pad4)
  show ?thesis
    using a b c by (simp add: pad_to_4_def pad4_def)
qed

section \<open>OctetString\<close>

lemma replicate_3: "replicate 3 x = [x, x, x]"
  by (simp add: numeral_3_eq_3)

lemma copy_bytes_make:
  "length s \<le> n \<Longrightarrow> copy_bytes (make_bytes n) s = s @ replicate (n - length s) 0"
  by (simp add: copy_bytes_def make_bytes_def)

lemma updatePadding_consistent:
  assumes "os_Padding v = 0 \<or>
           os_Padding v = pad4 (word_of_nat (length (os_Value v))) - word_of_nat (length (os_Value v))"
  shows "updatePadding v =
         v\<lparr>os_Padding := pad4 (word_of_nat (length (os_Value v))) - word_of_nat (length (os_Value v))\<rparr>"
  using assms by (auto simp: updatePadding_def Let_def)

lemma OctetString_Bytes_consistent:
  assumes len: "length (os_Value v) + 3 < 2 ^ 32"
    and pad: "os_Padding v = 0 \<or>
              os_Padding v = pad4 (word_of_nat (length (os_Value v))) - word_of_nat (length (os_Value v))"
  shows "fst (OctetString_Bytes v) =
         os_Value v @ replicate (pad_to_4 (length (os_Value v)) - length (os_Value v)) 0"
proof -
  have "fst (OctetString_Bytes v) =
        copy_bytes (make_bytes (pad_to_4 (length (os_Value v)))) (os_Value v)"
    using pad4_add_sub [OF len]
    by (simp add: OctetString_Bytes_def Let_def updatePadding_consistent [OF pad])
  then show ?thesis
    by (simp add: copy_bytes_make pad_to_4_ge)
qed

lemma OctetString_Put_aligned:
  assumes "length b mod 4 = 0" and "length b + 3 < 2 ^ 32"
  shows "OctetString_Put (Bytes_Data (Some b)) u = Inr \<lparr>os_Value = b, os_Padding = 0\<rparr>"
proof -
  have "unat (pad4 (word_of_nat (length b)) - word_of_nat (length b)) = 0"
    using assms by (simp add: unat_pad4_sub_of_nat pad_to_4_aligned)
  then have "pad4 (word_of_nat (length b)) - word_of_nat (length b) = 0"
    by (simp only: unat_eq_0)
  then show ?thesis
    by (simp add: OctetString_Put_def assert_bytes_def len_def elems_def)
qed

text \<open>
  C1, as stated, fails: the string "a" encodes to "a" followed by three zero octets,
  and Put stores all four octets as the value.
\<close>

theorem OctetString_roundtrip_counterexample:
  "OctetString_Put
     (Bytes_Data (Some (fst (OctetString_Bytes \<lparr>os_Value = [97], os_Padding = 0\<rparr>))))
     OctetString_zero
   = Inr \<lparr>os_Value = [97, 0, 0, 0], os_Padding = 0\<rparr>
   \<and> [97, 0, 0, 0] \<noteq> os_Value \<lparr>os_Value = [97], os_Padding = 0\<rparr>"
  by (simp add: OctetString_Put_def OctetString_Bytes_def updatePadding_def pad4_def
      OctetString_zero_def assert_bytes_def len_def elems_def copy_bytes_def make_bytes_def
      replicate_3)

text \<open>
  C1, amended. For an octet-string-family value v of fewer than 2^32 - 3 octets whose
  Padding is 0 or the padding of its Value: Bytes() returns Value followed by zero
  octets up to the next multiple of 4, and Put of these octets on any value u stores
  all of them, padding included, as u.Value with u.Padding 0. So u.Value is v.Value
  followed by the zero padding, and equals v.Value exactly when the length of v.Value
  is a multiple of 4.
\<close>

theorem OctetString_roundtrip_padded:
  assumes "length (os_Value v) + 3 < 2 ^ 32"
    and "os_Padding v = 0 \<or>
         os_Padding v = pad4 (word_of_nat (length (os_Value v))) - word_of_nat (length (os_Value v))"
  shows "fst (OctetString_Bytes v) =
           os_Value v @ replicate (pad_to_4 (length (os_Value v)) - length (os_Value v)) 0
         \<and> OctetString_Put (Bytes_Data (Some (fst (OctetString_Bytes v)))) u =
             Inr \<lparr>os_Value =
                    os_Value v @ replicate (pad_to_4 (length (os_Value v)) - length (os_Value v)) 0,
                  os_Padding = 0\<rparr>
         \<and> (os_Value v @ replicate (pad_to_4 (length (os_Value v)) - length (os_Value v)) 0
              = os_Value v
            \<longleftrightarrow> length (os_Value v) mod 4 = 0)"
proof -
  let ?n = "length (os_Value v)"
  let ?w = "os_Value v @ replicate (pad_to_4 ?n - ?n) 0"
  have bytes: "fst (OctetString_Bytes v) = ?w"
    using assms by (rule OctetString_Bytes_consistent)
  have lw: "length ?w = pad_to_4 ?n"
    using pad_to_4_ge [of ?n] by simp
  have "pad_to_4 ?n < ?n + 4"
    by (rule pad_to_4_less)
  moreover have "pad_to_4 ?n mod 4 = 0" "(2 :: nat) ^ 32 mod 4 = 0"
    by (simp_all add: pad_to_4_mod4)
  ultimately have "pad_to_4 ?n + 3 < 2 ^ 32"
    using assms(1) by presburger
  then have "length ?w + 3 < 2 ^ 32" "length ?w mod 4 = 0"
    using lw by (simp_all add: pad_to_4_mod4)
  then have put: "OctetString_Put (Bytes_Data (Some ?w)) u = Inr \<lparr>os_Value = ?w, os_Padding = 0\<rparr>"
    by (intro OctetString_Put_aligned)
  have "(?w = os_Value v) \<longleftrightarrow> pad_to_4 ?n - ?n = 0"
    by simp
  also have "\<dots> \<longleftrightarrow> ?n mod 4 = 0"
    unfolding pad_to_4_def by presburger
  finally show ?thesis
    using bytes put by simp
qed

theorem OctetString_roundtrip_padded_witness:
  "fst (OctetString_Bytes \<lparr>os_Value = [112, 101, 101, 114, 65], os_Padding = 0\<rparr>) =
     [112, 101, 101, 114, 65, 0, 0, 0]
   \<and> OctetString_Put
       (Bytes_Data (Some (fst (OctetString_Bytes \<lparr>os_Value = [112, 101, 101, 114, 65], os_Padding = 0\<rparr>))))
       OctetString_zero
     = Inr \<lparr>os_Value = [112, 101, 101, 114, 65, 0, 0, 0], os_Padding = 0\<rparr>"
proof -
  let ?v = "\<lparr>os_Value = [112, 101, 101, 114, 65], os_Padding = 0\<rparr>"
  have l: "length (os_Value ?v) = 5"
    by simp
  have h1: "length (os_Value ?v) + 3 < 2 ^ 32"
    unfolding l by simp
  have h2: "os_Padding ?v = 0 \<or>
            os_Padding ?v = pad4 (word_of_nat (length (os_Value ?v))) - word_of_nat (length (os_Value ?v))"
    by simp
  have k: "pad_to_4 (length (os_Value ?v)) - length (os_Value ?v) = 3"
    unfolding l by (simp add: pad_to_4_def)
  note t = OctetString_roundtrip_padded [OF h1 h2, of OctetString_zero, unfolded k replicate_3]
  have a: "fst (OctetString_Bytes ?v) = [112, 101, 101, 114, 65, 0, 0, 0]"
    using conjunct1 [OF t] by simp
  have b: "OctetString_Put (Bytes_Data (Some (fst (OctetString_Bytes ?v)))) OctetString_zero
           = Inr \<lparr>os_Value = [112, 101, 101, 114, 65, 0, 0, 0], os_Padding = 0\<rparr>"
    using conjunct1 [OF conjunct2 [OF t]] by simp
  show ?thesis
    by (rule conjI [OF a b])
qed

text \<open>
  C2. Length() is documented to return the length without padding, len(b) after
  Put(b). The code subtracts Padding from the length of Value, which holds no padding:
  after Put of the five octets of "peerA" it returns 2, and after Put of a single
  octet the subtraction wraps to 4294967294.
\<close>

theorem OctetString_Length_after_Put:
  "OctetString_Put (Bytes_Data (Some [112, 101, 101, 114, 65])) OctetString_zero
     = Inr \<lparr>os_Value = [112, 101, 101, 114, 65], os_Padding = 3\<rparr>
   \<and> OctetString_Length \<lparr>os_Value = [112, 101, 101, 114, 65], os_Padding = 3\<rparr> = 2
   \<and> OctetString_Put (Bytes_Data (Some [97])) OctetString_zero
     = Inr \<lparr>os_Value = [97], os_Padding = 3\<rparr>
   \<and> OctetString_Length \<lparr>os_Value = [97], os_Padding = 3\<rparr> = 4294967294"
  by (simp add: OctetString_Put_def OctetString_Length_def pad4_def
      OctetString_zero_def assert_bytes_def len_def elems_def)

text \<open>
  C8. Bytes() is documented to recalculate the padding from Value every time. The
  code recalculates only when Padding is 0: with Value "abcd" and a Padding of 3 left
  from an earlier value, Bytes() returns seven octets, Value and three zero octets,
  where the padding of "abcd" is none.
\<close>

theorem OctetString_Bytes_stale_padding:
  "fst (OctetString_Bytes \<lparr>os_Value = [97, 98, 99, 100], os_Padding = 3\<rparr>)
     = [97, 98, 99, 100, 0, 0, 0]
   \<and> pad4 4 - 4 = 0
   \<and> length (fst (OctetString_Bytes \<lparr>os_Value = [97, 98, 99, 100], os_Padding = 3\<rparr>)) mod 4 = 3"
  by (simp add: OctetString_Bytes_def updatePadding_def pad4_def
      copy_bytes_def make_bytes_def replicate_3)

section \<open>Big-endian encoding and decoding\<close>

lemma BigEndian_Uint32_PutUint32: "BigEndian_Uint32 (BigEndian_PutUint32 v) = v"
proof (rule bit_word_eqI)
  fix n assume "n < LENGTH(32)"
  then consider "n < 8" | "8 \<le> n" "n < 16" | "16 \<le> n" "n < 24" | "24 \<le> n" "n < 32"
    by fastforce
  then show "bit (BigEndian_Uint32 (BigEndian_PutUint32 v)) n = bit v n"
    unfolding BigEndian_Uint32_def BigEndian_PutUint32_def
    by cases (auto simp add: bit_simps)
qed

lemma BigEndian_Uint64_PutUint64: "BigEndian_Uint64 (BigEndian_PutUint64 v) = v"
proof (rule bit_word_eqI)
  fix n assume "n < LENGTH(64)"
  then consider "n < 8" | "8 \<le> n" "n < 16" | "16 \<le> n" "n < 24" | "24 \<le> n" "n < 32"
    | "32 \<le> n" "n < 40" | "40 \<le> n" "n < 48" | "48 \<le> n" "n < 56" | "56 \<le> n" "n < 64"
    by fastforce
  then show "bit (BigEndian_Uint64 (BigEndian_PutUint64 v)) n = bit v n"
    unfolding BigEndian_Uint64_def BigEndian_PutUint64_def
    by cases (auto simp add: bit_simps)
qed

lemma length_binary_Write32: "length (binary_Write32 v) = 4"
  by (simp add: binary_Write32_def BigEndian_PutUint32_def)

lemma length_binary_Write64: "length (binary_Write64 v) = 8"
  by (simp add: binary_Write64_def BigEndian_PutUint64_def)

lemma binary_Read32_Write32: "binary_Read32 (binary_Write32 v) = Some v"
  using length_binary_Write32 [of v]
  by (simp add: binary_Read32_def) (simp add: binary_Write32_def BigEndian_Uint32_PutUint32)

lemma binary_Read64_Write64: "binary_Read64 (binary_Write64 v) = Some v"
  using length_binary_Write64 [of v]
  by (simp add: binary_Read64_def) (simp add: binary_Write64_def BigEndian_Uint64_PutUint64)

section \<open>Numeric types\<close>

lemma Integer32_Put_Bytes:
  "Integer32_Put (Bytes_Data (Some (fst (Integer32_Bytes n)))) u =
     Inr \<lparr>i32_Value = i32_Value n, i32_Buffer = Some (binary_Write32 (i32_Value n))\<rparr>"
  by (simp add: Let_def Integer32_Put_def Integer32_Bytes_def assert_bytes_def elems_def
      binary_Read32_Write32)

lemma Integer32_Length_Bytes: "fst (Integer32_Length (snd (Integer32_Bytes n))) = 4"
  by (simp add: Let_def Integer32_Length_def Integer32_Bytes_def len_def elems_def length_binary_Write32)

lemma Integer32_Length_nil: "fst (Integer32_Length (n\<lparr>i32_Buffer := None\<rparr>)) = 4"
  by (simp add: Let_def Integer32_Length_def Integer32_Bytes_def len_def elems_def length_binary_Write32)

lemma Integer32_Length_Put:
  "\<exists>n'. Integer32_Put (Bytes_Data (Some b)) n = Inr n'
        \<and> fst (Integer32_Length n') = word_of_nat (length b)"
  by (simp add: Let_def Integer32_Put_def Integer32_Length_def assert_bytes_def len_def elems_def
      split: option.split)

lemma Integer32_Length_Put_nil:
  "\<exists>n'. Integer32_Put (Bytes_Data None) n = Inr n' \<and> fst (Integer32_Length n') = 4"
  by (simp add: Let_def Integer32_Put_def Integer32_Length_def Integer32_Bytes_def assert_bytes_def len_def
      elems_def binary_Read32_def length_binary_Write32)

lemma Integer64_Put_Bytes:
  "Integer64_Put (Bytes_Data (Some (fst (Integer64_Bytes n)))) u =
     Inr \<lparr>i64_Value = i64_Value n, i64_Buffer = Some (binary_Write64 (i64_Value n))\<rparr>"
  by (simp add: Let_def Integer64_Put_def Integer64_Bytes_def assert_bytes_def elems_def
      binary_Read64_Write64)

lemma Integer64_Length_Bytes: "fst (Integer64_Length (snd (Integer64_Bytes n))) = 8"
  by (simp add: Let_def Integer64_Length_def Integer64_Bytes_def len_def elems_def length_binary_Write64)

lemma Integer64_Length_nil: "fst (Integer64_Length (n\<lparr>i64_Buffer := None\<rparr>)) = 8"
  by (simp add: Let_def Integer64_Length_def Integer64_Bytes_def len_def elems_def length_binary_Write64)

lemma Integer64_Length_Put:
  "\<exists>n'. Integer64_Put (Bytes_Data (Some b)) n = Inr n'
        \<and> fst (Integer64_Length n') = word_of_nat (length b)"
  by (simp add: Let_def Integer64_Put_def Integer64_Length_def assert_bytes_def len_def elems_def
      split: option.split)

lemma Integer64_Length_Put_nil:
  "\<exists>n'. Integer64_Put (Bytes_Data None) n = Inr n' \<and> fst (Integer64_Length n') = 8"
  by (simp add: Let_def Integer64_Put_def Integer64_Length_def Integer64_Bytes_def assert_bytes_def len_def
      elems_def binary_Read64_def length_binary_Write64)

lemma Unsigned32_Put_Bytes:
  "Unsigned32_Put (Bytes_Data (Some (fst (Unsigned32_Bytes n)))) u =
     Inr \<lparr>u32_Value = u32_Value n, u32_Buffer = Some (binary_Write32 (u32_Value n))\<rparr>"
  by (simp add: Let_def Unsigned32_Put_def Unsigned32_Bytes_def assert_bytes_def elems_def
      binary_Read32_Write32)

lemma Unsigned32_Length_Bytes: "fst (Unsigned32_Length (snd (Unsigned32_Bytes n))) = 4"
  by (simp add: Let_def Unsigned32_Length_def Unsigned32_Bytes_def len_def elems_def length_binary_Write32)

lemma Unsigned32_Length_nil: "fst (Unsigned32_Length (n\<lparr>u32_Buffer := None\<rparr>)) = 4"
  by (simp add: Let_def Unsigned32_Length_def Unsigned32_Bytes_def len_def elems_def length_binary_Write32)

lemma Unsigned32_Length_Put:
  "\<exists>n'. Unsigned32_Put (Bytes_Data (Some b)) n = Inr n'
        \<and> fst (Unsigned32_Length n') = word_of_nat (length b)"
  by (simp add: Let_def Unsigned32_Put_def Unsigned32_Length_def assert_bytes_def len_def elems_def
      split: option.split)

lemma Unsigned32_Length_Put_nil:
  "\<exists>n'. Unsigned32_Put (Bytes_Data None) n = Inr n' \<and> fst (Unsigned32_Length n') = 4"
  by (simp add: Let_def Unsigned32_Put_def Unsigned32_Length_def Unsigned32_Bytes_def assert_bytes_def len_def
      elems_def binary_Read32_def length_binary_Write32)

lemma Unsigned64_Put_Bytes:
  "Unsigned64_Put (Bytes_Data (Some (fst (Unsigned64_Bytes n)))) u =
     Inr \<lparr>u64_Value = u64_Value n, u64_Buffer = Some (binary_Write64 (u64_Value n))\<rparr>"
  by (simp add: Let_def Unsigned64_Put_def Unsigned64_Bytes_def assert_bytes_def elems_def
      binary_Read64_Write64)

lemma Unsigned64_Length_Bytes: "fst (Unsigned64_Length (snd (Unsigned64_Bytes n))) = 8"
  by (simp add: Let_def Unsigned64_Length_def Unsigned64_Bytes_def len_def elems_def length_binary_Write64)

lemma Unsigned64_Length_nil: "fst (Unsigned64_Length (n\<lparr>u64_Buffer := None\<rparr>)) = 8"
  by (simp add: Let_def Unsigned64_Length_def Unsigned64_Bytes_def len_def elems_def length_binary_Write64)

lemma Unsigned64_Length_Put:
  "\<exists>n'. Unsigned64_Put (Bytes_Data (Some b)) n = Inr n'
        \<and> fst (Unsigned64_Length n') = word_of_nat (length b)"
  by (simp add: Let_def Unsigned64_Put_def Unsigned64_Length_def assert_bytes_def len_def elems_def
      split: option.split)

lemma Unsigned64_Length_Put_nil:
  "\<exists>n'. Unsigned64_Put (Bytes_Data None) n = Inr n' \<and> fst (Unsigned64_Length n') = 8"
  by (simp add: Let_def Unsigned64_Put_def Unsigned64_Length_def Unsigned64_Bytes_def assert_bytes_def len_def
      elems_def binary_Read64_def length_binary_Write64)

lemma Float32_Put_Bytes:
  "Float32_Put (Bytes_Data (Some (fst (Float32_Bytes n)))) u =
     Inr \<lparr>f32_Value = f32_Value n, f32_Buffer = Some (binary_Write32 (f32_Value n))\<rparr>"
  by (simp add: Let_def Float32_Put_def Float32_Bytes_def assert_bytes_def elems_def
      binary_Read32_Write32)

lemma Float32_Length_Bytes: "fst (Float32_Length (snd (Float32_Bytes n))) = 4"
  by (simp add: Let_def Float32_Length_def Float32_Bytes_def len_def elems_def length_binary_Write32)

lemma Float32_Length_nil: "fst (Float32_Length (n\<lparr>f32_Buffer := None\<rparr>)) = 4"
  by (simp add: Let_def Float32_Length_def Float32_Bytes_def len_def elems_def length_binary_Write32)

lemma Float32_Length_Put:
  "\<exists>n'. Float32_Put (Bytes_Data (Some b)) n = Inr n'
        \<and> fst (Float32_Length n') = word_of_nat (length b)"
  by (simp add: Let_def Float32_Put_def Float32_Length_def assert_bytes_def len_def elems_def
      split: option.split)

lemma Float32_Length_Put_nil:
  "\<exists>n'. Float32_Put (Bytes_Data None) n = Inr n' \<and> fst (Float32_Length n') = 4"
  by (simp add: Let_def Float32_Put_def Float32_Length_def Float32_Bytes_def assert_bytes_def len_def
      elems_def binary_Read32_def length_binary_Write32)

lemma Float64_Put_Bytes:
  "Float64_Put (Bytes_Data (Some (fst (Float64_Bytes n)))) u =
     Inr \<lparr>f64_Value = f64_Value n, f64_Buffer = Some (binary_Write64 (f64_Value n))\<rparr>"
  by (simp add: Let_def Float64_Put_def Float64_Bytes_def assert_bytes_def elems_def
      binary_Read64_Write64)

lemma Float64_Length_Bytes: "fst (Float64_Length (snd (Float64_Bytes n))) = 8"
  by (simp add: Let_def Float64_Length_def Float64_Bytes_def len_def elems_def length_binary_Write64)

lemma Float64_Length_nil: "fst (Float64_Length (n\<lparr>f64_Buffer := None\<rparr>)) = 8"
  by (simp add: Let_def Float64_Length_def Float64_Bytes_def len_def elems_def length_binary_Write64)

lemma Float64_Length_Put:
  "\<exists>n'. Float64_Put (Bytes_Data (Some b)) n = Inr n'
        \<and> fst (Float64_Length n') = word_of_nat (length b)"
  by (simp add: Let_def Float64_Put_def Float64_Length_def assert_bytes_def len_def elems_def
      split: option.split)

lemma Float64_Length_Put_nil:
  "\<exists>n'. Float64_Put (Bytes_Data None) n = Inr n' \<and> fst (Float64_Length n') = 8"
  by (simp add: Let_def Float64_Put_def Float64_Length_def Float64_Bytes_def assert_bytes_def len_def
      elems_def binary_Read64_def length_binary_Write64)

text \<open>
  C6, as stated, fails: Put keeps the slice it is given as Buffer and Length() returns
  the length of Buffer, so after Put of two octets on a new Integer32 Length() is 2.
\<close>

theorem Integer32_Length_counterexample:
  "Integer32_Put (Bytes_Data (Some [1, 2])) Integer32_zero
     = Inr \<lparr>i32_Value = 0, i32_Buffer = Some [1, 2]\<rparr>
   \<and> fst (Integer32_Length \<lparr>i32_Value = 0, i32_Buffer = Some [1, 2]\<rparr>) = 2"
  by (simp add: Let_def Integer32_Put_def Integer32_Length_def Integer32_zero_def assert_bytes_def
      len_def elems_def binary_Read32_def)

text \<open>
  C6, amended. For each of Integer32, Unsigned32, Float32 (Integer64, Unsigned64,
  Float64), from any state n: Length() returns 4 (8) right after Bytes(), and whenever
  Buffer is nil, as in a new value or after Put of a nil slice; after Put(b) with a
  non-nil b it returns uint32(len(b)), which is 4 (8) only for a b of that many
  octets.
\<close>

theorem numeric_Length:
  "(fst (Integer32_Length (snd (Integer32_Bytes i32))) = 4
    \<and> fst (Integer32_Length (i32\<lparr>i32_Buffer := None\<rparr>)) = 4
    \<and> (\<exists>n'. Integer32_Put (Bytes_Data None) i32 = Inr n' \<and> fst (Integer32_Length n') = 4)
    \<and> (\<exists>n'. Integer32_Put (Bytes_Data (Some b)) i32 = Inr n'
          \<and> fst (Integer32_Length n') = word_of_nat (length b)))
   \<and> (fst (Integer64_Length (snd (Integer64_Bytes i64))) = 8
    \<and> fst (Integer64_Length (i64\<lparr>i64_Buffer := None\<rparr>)) = 8
    \<and> (\<exists>n'. Integer64_Put (Bytes_Data None) i64 = Inr n' \<and> fst (Integer64_Length n') = 8)
    \<and> (\<exists>n'. Integer64_Put (Bytes_Data (Some b)) i64 = Inr n'
          \<and> fst (Integer64_Length n') = word_of_nat (length b)))
   \<and> (fst (Unsigned32_Length (snd (Unsigned32_Bytes u32))) = 4
    \<and> fst (Unsigned32_Length (u32\<lparr>u32_Buffer := None\<rparr>)) = 4
    \<and> (\<exists>n'. Unsigned32_Put (Bytes_Data None) u32 = Inr n' \<and> fst (Unsigned32_Length n') = 4)
    \<and> (\<exists>n'. Unsigned32_Put (Bytes_Data (Some b)) u32 = Inr n'
          \<and> fst (Unsigned32_Length n') = word_of_nat (length b)))
   \<and> (fst (Unsigned64_Length (snd (Unsigned64_Bytes u64))) = 8
    \<and> fst (Unsigned64_Length (u64\<lparr>u64_Buffer := None\<rparr>)) = 8
    \<and> (\<exists>n'. Unsigned64_Put (Bytes_Data None) u64 = Inr n' \<and> fst (Unsigned64_Length n') = 8)
    \<and> (\<exists>n'. Unsigned64_Put (Bytes_Data (Some b)) u64 = Inr n'
          \<and> fst (Unsigned64_Length n') = word_of_nat (length b)))
   \<and> (fst (Float32_Length (snd (Float32_Bytes f32))) = 4
    \<and> fst (Float32_Length (f32\<lparr>f32_Buffer := None\<rparr>)) = 4
    \<and> (\<exists>n'. Float32_Put (Bytes_Data None) f32 = Inr n' \<and> fst (Float32_Length n') = 4)
    \<and> (\<exists>n'. Float32_Put (Bytes_Data (Some b)) f32 = Inr n'
          \<and> fst (Float32_Length n') = word_of_nat (length b)))
   \<and> (fst (Float64_Length (snd (Float64_Bytes f64))) = 8
    \<and> fst (Float64_Length (f64\<lparr>f64_Buffer := None\<rparr>)) = 8
    \<and> (\<exists>n'. Float64_Put (Bytes_Data None) f64 = Inr n' \<and> fst (Float64_Length n') = 8)
    \<and> (\<exists>n'. Float64_Put (Bytes_Data (Some b)) f64 = Inr n'
          \<and> fst (Float64_Length n') = word_of_nat (length b)))"
  by (intro conjI
      Integer32_Length_Bytes Integer32_Length_nil Integer32_Length_Put_nil Integer32_Length_Put
      Integer64_Length_Bytes Integer64_Length_nil Integer64_Length_Put_nil Integer64_Length_Put
      Unsigned32_Length_Bytes Unsigned32_Length_nil Unsigned32_Length_Put_nil Unsigned32_Length_Put
      Unsigned64_Length_Bytes Unsigned64_Length_nil Unsigned64_Length_Put_nil Unsigned64_Length_Put
      Float32_Length_Bytes Float32_Length_nil Float32_Length_Put_nil Float32_Length_Put
      Float64_Length_Bytes Float64_Length_nil Float64_Length_Put_nil Float64_Length_Put)

text \<open>
  C9. For every value of Integer32, Integer64, Unsigned32, Unsigned64, Float32 and
  Float64, with any Buffer, the octets returned by Bytes() put into any value u, a new
  one included, give u the same Value, bit for bit.
\<close>

theorem numeric_roundtrip:
  "Integer32_Put (Bytes_Data (Some (fst (Integer32_Bytes i32)))) i32'
     = Inr \<lparr>i32_Value = i32_Value i32, i32_Buffer = Some (binary_Write32 (i32_Value i32))\<rparr>
   \<and> Integer64_Put (Bytes_Data (Some (fst (Integer64_Bytes i64)))) i64'
     = Inr \<lparr>i64_Value = i64_Value i64, i64_Buffer = Some (binary_Write64 (i64_Value i64))\<rparr>
   \<and> Unsigned32_Put (Bytes_Data (Some (fst (Unsigned32_Bytes u32)))) u32'
     = Inr \<lparr>u32_Value = u32_Value u32, u32_Buffer = Some (binary_Write32 (u32_Value u32))\<rparr>
   \<and> Unsigned64_Put (Bytes_Data (Some (fst (Unsigned64_Bytes u64)))) u64'
     = Inr \<lparr>u64_Value = u64_Value u64, u64_Buffer = Some (binary_Write64 (u64_Value u64))\<rparr>
   \<and> Float32_Put (Bytes_Data (Some (fst (Float32_Bytes f32)))) f32'
     = Inr \<lparr>f32_Value = f32_Value f32, f32_Buffer = Some (binary_Write32 (f32_Value f32))\<rparr>
   \<and> Float64_Put (Bytes_Data (Some (fst (Float64_Bytes f64)))) f64'
     = Inr \<lparr>f64_Value = f64_Value f64, f64_Buffer = Some (binary_Write64 (f64_Value f64))\<rparr>"
  by (intro conjI
      Integer32_Put_Bytes
      Integer64_Put_Bytes
      Unsigned32_Put_Bytes
      Unsigned64_Put_Bytes
      Float32_Put_Bytes
      Float64_Put_Bytes)

section \<open>Address\<close>

lemma Address_Put_accept:
  assumes "6 \<le> length b" and "b ! 1 = 1"
  shows "Address_Put (Bytes_Data (Some b)) a =
         Inr \<lparr>addr_Family = Some [b ! 0, b ! 1],
              addr_IP = Some (v4InV6Prefix @ [b ! 2, b ! 3, b ! 4, b ! 5]),
              addr_Padding = 2\<rparr>"
  using assms
  by (simp add: Address_Put_def assert_bytes_def len_def elems_def net_IPv4_def Let_def)

lemma Address_Put_reject:
  assumes "len s < 6 \<or> elems s ! 1 \<noteq> 1"
  shows "Address_Put (Bytes_Data s) a = Inr a"
  using assms
  by (auto simp: Address_Put_def assert_bytes_def Let_def)

lemma Address_Put_take6: "Address_Put (Bytes_Data (Some (take 6 b))) a = Address_Put (Bytes_Data (Some b)) a"
proof (cases "6 \<le> length b")
  case True
  then have "take 6 b ! i = b ! i" if "i < 6" for i
    using that by simp
  then have "take 6 b ! 0 = b ! 0" "take 6 b ! 1 = b ! 1" "take 6 b ! 2 = b ! 2"
    "take 6 b ! 3 = b ! 3" "take 6 b ! 4 = b ! 4" "take 6 b ! 5 = b ! 5"
    by simp_all
  then show ?thesis
    using True
    by (simp add: Address_Put_def assert_bytes_def len_def elems_def Let_def)
next
  case False
  then show ?thesis
    by simp
qed

text \<open>
  C7, as stated, fails: Put has no result, and on an input whose family tag is 2
  (IPv6) it returns normally, without any error, leaving the value as it was.
\<close>

theorem Address_Put_no_error_counterexample:
  "Address_Put
     (Bytes_Data (Some [0, 2, 32, 1, 13, 184, 0, 0, 0, 0, 0, 0, 0, 0, 0, 0, 0, 1]))
     Address_zero
   = Inr Address_zero"
  by (simp add: Address_Put_def assert_bytes_def len_def elems_def)

text \<open>
  C7, amended. For every octet input to Address decode that is shorter than six octets
  or whose second family octet is not 1 (IPv4), Put returns normally, reporting no
  error, and leaves every field of the Address as it was: the value is never partially
  populated.
\<close>

theorem Address_Put_unsupported_unchanged:
  assumes "len s < 6 \<or> elems s ! 1 \<noteq> 1"
  shows "Address_Put (Bytes_Data s) a = Inr a"
  using assms by (rule Address_Put_reject)

theorem Address_Put_unsupported_unchanged_witness:
  "Address_Put
     (Bytes_Data (Some [0, 2, 32, 1, 13, 184, 0, 0, 0, 0, 0, 0, 0, 0, 0, 0, 0, 1]))
     \<lparr>addr_Family = Some [0, 1], addr_IP = net_IPv4 192 0 2 1, addr_Padding = 2\<rparr>
   = Inr \<lparr>addr_Family = Some [0, 1], addr_IP = net_IPv4 192 0 2 1, addr_Padding = 2\<rparr>"
proof -
  have "len (Some [0, 2, 32, 1, 13, 184, 0, 0, 0, 0, 0, 0, 0, 0, 0, 0, 0, 1]) < 6
        \<or> elems (Some [0, 2, 32, 1, 13, 184, 0, 0, 0, 0, 0, 0, 0, 0, 0, 0, 0, 1]) ! 1 \<noteq> 1"
    by (simp add: elems_def)
  then show ?thesis
    by (rule Address_Put_unsupported_unchanged)
qed

text \<open>
  C10. Address decode looks at the length and the second family octet only. An input
  b of at least six octets with b[1] = 1 is taken as IPv4 whatever b[0] is: Family
  becomes the two octets b[0], b[1] as they are, IP the address b[2..5] and Padding 2,
  and the octets after the sixth play no part. On any other octet input, the nil
  slice included, Put leaves the Address as it was.
\<close>

theorem Address_Put_classifies:
  "(6 \<le> length b \<and> b ! 1 = 1 \<longrightarrow>
      Address_Put (Bytes_Data (Some b)) a =
        Inr \<lparr>addr_Family = Some [b ! 0, b ! 1],
             addr_IP = net_IPv4 (b ! 2) (b ! 3) (b ! 4) (b ! 5),
             addr_Padding = 2\<rparr>)
   \<and> Address_Put (Bytes_Data (Some b)) a = Address_Put (Bytes_Data (Some (take 6 b))) a
   \<and> (\<not> (6 \<le> length b \<and> b ! 1 = 1) \<longrightarrow> Address_Put (Bytes_Data (Some b)) a = Inr a)
   \<and> Address_Put (Bytes_Data None) a = Inr a"
proof -
  have "Address_Put (Bytes_Data (Some b)) a = Inr a" if "\<not> (6 \<le> length b \<and> b ! 1 = 1)"
    using that by (intro Address_Put_reject) (auto simp: len_def elems_def)
  moreover have "Address_Put (Bytes_Data None) a = Inr a"
    by (intro Address_Put_reject) (simp add: len_def elems_def)
  ultimately show ?thesis
    by (simp add: Address_Put_accept Address_Put_take6 net_IPv4_def)
qed

theorem Address_Put_classifies_witness:
  "Address_Put (Bytes_Data (Some [255, 1, 192, 0, 2, 1, 9, 9])) Address_zero =
     Inr \<lparr>addr_Family = Some [255, 1],
          addr_IP = Some [0, 0, 0, 0, 0, 0, 0, 0, 0, 0, 255, 255, 192, 0, 2, 1],
          addr_Padding = 2\<rparr>
   \<and> Address_Put (Bytes_Data (Some [0, 1, 192, 0])) Address_zero = Inr Address_zero"
proof -
  have a: "6 \<le> length [255, 1, 192, 0, 2, 1, 9, 9 :: octet] \<and> [255, 1, 192, 0, 2, 1, 9, 9 :: octet] ! 1 = 1"
    by simp
  have b: "\<not> (6 \<le> length [0, 1, 192, 0 :: octet] \<and> [0, 1, 192, 0 :: octet] ! 1 = 1)"
    by simp
  have "Address_Put (Bytes_Data (Some [255, 1, 192, 0, 2, 1, 9, 9])) Address_zero =
     Inr \<lparr>addr_Family = Some [255, 1],
          addr_IP = Some [0, 0, 0, 0, 0, 0, 0, 0, 0, 0, 255, 255, 192, 0, 2, 1],
          addr_Padding = 2\<rparr>"
    using conjunct1 [OF Address_Put_classifies [of "[255, 1, 192, 0, 2, 1, 9, 9]" Address_zero]] a
    by (simp add: net_IPv4_def v4InV6Prefix_def)
  moreover have "Address_Put (Bytes_Data (Some [0, 1, 192, 0])) Address_zero = Inr Address_zero"
    using conjunct1 [OF conjunct2 [OF conjunct2 [OF Address_Put_classifies [of "[0, 1, 192, 0]" Address_zero]]]] b
    by blast
  ultimately show ?thesis
    by (rule conjI)
qed

section \<open>The watchdog handler\<close>

text \<open>
  C3. When the mandatory fields of a Device-Watchdog-Request parse, the handler writes
  exactly one answer, on the connection the request came from. The answer mirrors the
  request, has result code Success and carries Origin-Host and Origin-Realm of the
  state machine's configuration and an Origin-State-Id that is the clock reading in
  seconds, converted to uint32. When the write succeeds, no error is reported.
\<close>

theorem handleDWR_success:
  assumes "Parse w m = None"
  shows "\<exists>a. writes (handleDWR w sm c m) = [(a, c)]
           \<and> ans_Request a = m
           \<and> ans_ResultCode a = Success
           \<and> ans_AVPs a =
               [\<lparr>avp_Code = OriginHost, avp_Flags = Mbit, avp_VendorID = 0,
                  avp_Data = DiameterIdentity_data (cfg_OriginHost (sm_cfg sm))\<rparr>,
                \<lparr>avp_Code = OriginRealm, avp_Flags = Mbit, avp_VendorID = 0,
                  avp_Data = DiameterIdentity_data (cfg_OriginRealm (sm_cfg sm))\<rparr>,
                \<lparr>avp_Code = OriginStateID, avp_Flags = Mbit, avp_VendorID = 0,
                  avp_Data = Unsigned32_data (ucast (Now_Unix w))\<rparr>]
           \<and> (WriteTo_err w a c = None \<longrightarrow> handleDWR w sm c m = [WriteTo a c])
           \<and> (WriteTo_err w a c = None \<longrightarrow> reports (handleDWR w sm c m) = [])"
  using assms
  by (simp add: handleDWR_def Message_Answer_def NewAVP_def Let_def split: option.split)

theorem handleDWR_success_witness:
  "\<exists>a. writes (handleDWR
           \<lparr>Parse = (\<lambda>m. if m = ''DWR peerA realm.test 7'' then None else Some ''missing AVP''),
            Now_Unix = 1700000000, WriteTo_err = (\<lambda>a c. None)\<rparr>
           \<lparr>sm_cfg = \<lparr>cfg_OriginHost = [115, 114, 118], cfg_OriginRealm = [108, 97, 98]\<rparr>\<rparr>
           (1 :: nat) ''DWR peerA realm.test 7'') = [(a, 1)]
       \<and> ans_ResultCode a = Success
       \<and> ans_AVPs a =
               [\<lparr>avp_Code = OriginHost, avp_Flags = Mbit, avp_VendorID = 0,
                  avp_Data = DiameterIdentity_data [115, 114, 118]\<rparr>,
                \<lparr>avp_Code = OriginRealm, avp_Flags = Mbit, avp_VendorID = 0,
                  avp_Data = DiameterIdentity_data [108, 97, 98]\<rparr>,
                \<lparr>avp_Code = OriginStateID, avp_Flags = Mbit, avp_VendorID = 0,
                  avp_Data = Unsigned32_data 1700000000\<rparr>]
       \<and> reports (handleDWR
           \<lparr>Parse = (\<lambda>m. if m = ''DWR peerA realm.test 7'' then None else Some ''missing AVP''),
            Now_Unix = 1700000000, WriteTo_err = (\<lambda>a c. None)\<rparr>
           \<lparr>sm_cfg = \<lparr>cfg_OriginHost = [115, 114, 118], cfg_OriginRealm = [108, 97, 98]\<rparr>\<rparr>
           (1 :: nat) ''DWR peerA realm.test 7'') = []"
proof -
  let ?w = "\<lparr>Parse = (\<lambda>m. if m = ''DWR peerA realm.test 7'' then None else Some ''missing AVP''),
            Now_Unix = 1700000000, WriteTo_err = (\<lambda>a c. None)\<rparr>
            :: (nat, string, string) world"
  let ?sm = "\<lparr>sm_cfg = \<lparr>cfg_OriginHost = [115, 114, 118], cfg_OriginRealm = [108, 97, 98]\<rparr>\<rparr>"
  have p: "Parse ?w ''DWR peerA realm.test 7'' = None"
    by simp
  have t: "(ucast (1700000000 :: uint64) :: uint32) = 1700000000"
    by simp
  from handleDWR_success [OF p, of ?sm 1]
  obtain a where "writes (handleDWR ?w ?sm 1 ''DWR peerA realm.test 7'') = [(a, 1)]"
    "ans_ResultCode a = Success"
    "ans_AVPs a =
               [\<lparr>avp_Code = OriginHost, avp_Flags = Mbit, avp_VendorID = 0,
                  avp_Data = DiameterIdentity_data [115, 114, 118]\<rparr>,
                \<lparr>avp_Code = OriginRealm, avp_Flags = Mbit, avp_VendorID = 0,
                  avp_Data = DiameterIdentity_data [108, 97, 98]\<rparr>,
                \<lparr>avp_Code = OriginStateID, avp_Flags = Mbit, avp_VendorID = 0,
                  avp_Data = Unsigned32_data 1700000000\<rparr>]"
    "reports (handleDWR ?w ?sm 1 ''DWR peerA realm.test 7'') = []"
    unfolding t [symmetric] by auto
  then show ?thesis
    by blast
qed

text \<open>
  C4. When the parse of the mandatory fields fails, the handler calls nothing on the
  connection: it writes no reply and does not close it. Its only effect is one error
  report, which carries the connection, the request and the parse error.
\<close>

theorem handleDWR_parse_failure:
  assumes "Parse w m = Some e"
  shows "handleDWR w sm c m = [Error \<lparr>er_Conn = c, er_Message = m, er_Error = e\<rparr>]
         \<and> writes (handleDWR w sm c m) = []
         \<and> reports (handleDWR w sm c m) = [\<lparr>er_Conn = c, er_Message = m, er_Error = e\<rparr>]"
  using assms by (simp add: handleDWR_def)

theorem handleDWR_parse_failure_witness:
  "handleDWR
     \<lparr>Parse = (\<lambda>m. if m = ''DWR peerA realm.test 7'' then None else Some ''missing AVP''),
      Now_Unix = 1700000000, WriteTo_err = (\<lambda>a c. None)\<rparr>
     \<lparr>sm_cfg = \<lparr>cfg_OriginHost = [115, 114, 118], cfg_OriginRealm = [108, 97, 98]\<rparr>\<rparr>
     (1 :: nat) ''DWR peerA 7''
   = [Error \<lparr>er_Conn = 1, er_Message = ''DWR peerA 7'', er_Error = ''missing AVP''\<rparr>]"
proof -
  let ?w = "\<lparr>Parse = (\<lambda>m. if m = ''DWR peerA realm.test 7'' then None else Some ''missing AVP''),
            Now_Unix = 1700000000, WriteTo_err = (\<lambda>a c. None)\<rparr>
            :: (nat, string, string) world"
  have p: "Parse ?w ''DWR peerA 7'' = Some ''missing AVP''"
    by simp
  show ?thesis
    using conjunct1 [OF handleDWR_parse_failure [OF p]] .
qed

end
